theory Spec2Isabelle
  imports Main "HOL-Library.Sublist"
begin

section \<open>Python strings\<close>

text \<open>
  Strings are ASCII text, one \<^typ>\<open>char\<close> per character. The functions below are the
  \<^verbatim>\<open>str\<close> methods and built-ins that the application calls, restricted to ASCII.
\<close>

definition isspace :: "char \<Rightarrow> bool" where
  "isspace c \<longleftrightarrow> c \<in> set [CHR '' '', CHR 0x09, CHR 0x0A, CHR 0x0B, CHR 0x0C, CHR 0x0D,
                         CHR 0x1C, CHR 0x1D, CHR 0x1E, CHR 0x1F]"


definition isalnum :: "char \<Rightarrow> bool" where
  "isalnum c \<longleftrightarrow>
     c \<in> set ''abcdefghijklmnopqrstuvwxyzABCDEFGHIJKLMNOPQRSTUVWXYZ0123456789''"

text \<open>\<^verbatim>\<open>s.strip()\<close>, \<^verbatim>\<open>s.lower()\<close>, \<^verbatim>\<open>s.startswith(p)\<close> is \<^const>\<open>prefix\<close>.\<close>

definition strip :: "string \<Rightarrow> string" where
  "strip s = rev (dropWhile isspace (rev (dropWhile isspace s)))"






text \<open>\<^verbatim>\<open>s.split(c)\<close> for a one-character separator: never the empty list.\<close>

fun split_char :: "char \<Rightarrow> string \<Rightarrow> string list" where
  "split_char sep [] = [[]]"
| "split_char sep (c # cs) =
     (if c = sep then [] # split_char sep cs
      else (case split_char sep cs of
              [] \<Rightarrow> [[c]]
            | p # ps \<Rightarrow> (c # p) # ps))"




text \<open>
  \<^verbatim>\<open>s.split(sep)[-1]\<close> for a separator of several characters: the separator is
  searched from the left, without overlaps, and the text after its last match is returned.
\<close>

function last_part :: "string \<Rightarrow> string \<Rightarrow> string \<Rightarrow> string" where
  "last_part sep cur [] = rev cur"
| "last_part sep cur (c # cs) =
     (if sep \<noteq> [] \<and> prefix sep (c # cs)
      then last_part sep [] (drop (length sep) (c # cs))
      else last_part sep (c # cur) cs)"
  by pat_completeness auto
termination
  by (relation "measure (\<lambda>(sep, cur, s). length s)") auto

definition split_last :: "string \<Rightarrow> string \<Rightarrow> string" where
  "split_last sep s = last_part sep [] s"


subsection \<open>Integers and text\<close>









section \<open>The data of the application\<close>

text \<open>
  A parsed feed entry is a dictionary. A key read with \<^verbatim>\<open>.get(key, default)\<close> is an
  optional field here, \<open>None\<close> when the key is absent.
\<close>

record author =
  a_name :: "string option"

record link =
  l_title :: "string option"
  l_type :: "string option"
  l_href :: "string option"

record tag =
  t_term :: "string option"

record entry =
  e_id :: "string option"
  e_title :: "string option"
  e_link :: "string option"
  e_authors :: "author list option"
  e_published :: "string option"
  e_updated :: "string option"
  e_arxiv_doi :: "string option"
  e_arxiv_journal_ref :: "string option"
  e_arxiv_primary_category :: "tag option"
  e_tags :: "tag list option"
  e_summary :: "string option"
  e_links :: "link list option"

text \<open>
  The feed that \<^verbatim>\<open>search_arxiv\<close> returns: the OpenSearch metadata of the page, already
  as the integers that \<^verbatim>\<open>int(...)\<close> reads from them, and the entries of the page.
\<close>

record feed =
  opensearch_startindex :: "int option"
  opensearch_totalresults :: "int option"
  entries :: "entry list"

section \<open>Resolving a display number (main.py)\<close>

text \<open>
  \<^verbatim>\<open>_get_entry_from_results(results_feed, display_index)\<close>. The feed is \<open>None\<close> when the
  last search failed or none was made. The function takes the feed and a number and returns
  an entry or \<open>None\<close>; it has no access to the session state.
\<close>

definition get_entry_from_results :: "feed option \<Rightarrow> int \<Rightarrow> entry option" where
  "get_entry_from_results results_feed display_index =
     (case results_feed of
        None \<Rightarrow> None
      | Some f \<Rightarrow>
          if entries f = [] then None
          else (let current_page_start = (case opensearch_startindex f of None \<Rightarrow> 0 | Some n \<Rightarrow> n);
                    entry_index = display_index - 1 - current_page_start
                in if 0 \<le> entry_index \<and> entry_index < int (length (entries f))
                   then Some (entries f ! nat entry_index)
                   else None))"

section \<open>The session state and the world around it\<close>

text \<open>
  A file object of the Gemini File API: \<open>gf_state\<close> is \<^verbatim>\<open>file.state.name\<close>.
\<close>

record gemini_file =
  gf_name :: string
  gf_state :: string
  gf_uri :: string
  gf_mime_type :: string

text \<open>\<^verbatim>\<open>class AppState\<close>. The two dictionaries are maps.\<close>

record app_state =
  current_query :: string
  current_start_index :: int
  current_max_results :: int
  current_sort_by :: string
  current_sort_order :: string
  last_results_feed :: "feed option"
  total_results_count :: int
  gemini_enabled :: bool
  serper_enabled :: bool
  downloaded_pdfs :: "int \<rightharpoonup> string"
  gemini_uploaded_files :: "string \<rightharpoonup> gemini_file"
  gemini_model_name :: string

text \<open>
  The exceptions that reach the command loop, with the text that \<^verbatim>\<open>str(e)\<close> gives.
\<close>

datatype py_error =
    EOFError
  | KeyboardInterrupt
  | AttributeError string
  | KeyError string

fun str_error :: "py_error \<Rightarrow> string" where
  "str_error EOFError = ''EOF when reading a line''"
| "str_error KeyboardInterrupt = []"
| "str_error (AttributeError m) = m"
| "str_error (KeyError m) = m"

text \<open>
  Every call that leaves the process is recorded as an event, in the order of the calls.
\<close>

datatype event =
    Search_arxiv string int int string string
  | Http_get string
  | Upload_file string string
  | Get_file string
  | Delete_file string
  | Generate_content string "string list"

text \<open>
  The world: the lines still to be read from standard input, the lines printed by the
  controller, the paths that exist on local storage, the events so far, and the state of
  the remote services, of which nothing is known.
\<close>

record 'w world =
  stdin :: "string list"
  stdout :: "string list"
  files :: "string set"
  trace :: "event list"
  remote :: 'w

text \<open>
  The remote services answer as they like; each answer may depend on the state of the
  remote side and changes it. \<open>None\<close> as an answer is an exception raised by the call.
  \<^item> \<open>arxiv_api\<close>: the request of \<^verbatim>\<open>search_arxiv\<close> with the parsing and the checks that
    follow it; the answer is the feed or \<open>None\<close>, as \<^verbatim>\<open>search_arxiv\<close> returns them.
  \<^item> \<open>pdf_get\<close>: the streamed \<^verbatim>\<open>requests.get\<close> of \<^verbatim>\<open>download_pdf\<close> together with the
    writing of the file; \<open>True\<close> when all of it succeeded, \<open>False\<close> when any part raised.
  \<^item> \<open>genai_upload_file\<close>, \<open>genai_get_file\<close>, \<open>genai_delete_file\<close>: the File API.
  \<^item> \<open>generate_content\<close>: \<^verbatim>\<open>model.generate_content_async\<close>, the text of the answer.
\<close>

record 'w services =
  arxiv_api :: "'w \<Rightarrow> string \<Rightarrow> int \<Rightarrow> int \<Rightarrow> string \<Rightarrow> string \<Rightarrow> feed option \<times> 'w"
  pdf_get :: "'w \<Rightarrow> string \<Rightarrow> bool \<times> 'w"
  genai_upload_file :: "'w \<Rightarrow> string \<Rightarrow> string \<Rightarrow> gemini_file option \<times> 'w"
  genai_get_file :: "'w \<Rightarrow> string \<Rightarrow> gemini_file option \<times> 'w"
  genai_delete_file :: "'w \<Rightarrow> string \<Rightarrow> 'w"
  generate_content :: "'w \<Rightarrow> string \<Rightarrow> string \<Rightarrow> gemini_file list \<Rightarrow> string option \<times> 'w"

definition print_line :: "string \<Rightarrow> 'w world \<Rightarrow> 'w world" where
  "print_line msg w = w\<lparr>stdout := stdout w @ [msg]\<rparr>"

text \<open>\<^verbatim>\<open>input(prompt)\<close>: the prompt is printed, a line is read, or \<^verbatim>\<open>EOFError\<close> raised.\<close>

definition py_input :: "string \<Rightarrow> 'w world \<Rightarrow> (py_error + string) \<times> 'w world" where
  "py_input prompt w =
     (case stdin w of
        [] \<Rightarrow> (Inl EOFError, print_line prompt w)
      | l # ls \<Rightarrow> (Inr l, (print_line prompt w)\<lparr>stdin := ls\<rparr>))"

text \<open>\<^verbatim>\<open>arxiv_client.search_arxiv\<close>: one request to the index.\<close>

definition search_arxiv ::
  "'w services \<Rightarrow> string \<Rightarrow> int \<Rightarrow> int \<Rightarrow> string \<Rightarrow> string \<Rightarrow> 'w world \<Rightarrow> feed option \<times> 'w world" where
  "search_arxiv sv query start max_results sort_by sort_order w =
     (let (r, rm) = arxiv_api sv (remote w) query start max_results sort_by sort_order
      in (r, w\<lparr>trace := trace w @ [Search_arxiv query start max_results sort_by sort_order],
                remote := rm\<rparr>))"

text \<open>
  \<^verbatim>\<open>display.display_results\<close>, for what the controller uses of it: the number of
  entries displayed. What it prints is not part of the model.
\<close>

definition display_results :: "feed \<Rightarrow> int" where
  "display_results f = int (length (entries f))"

text \<open>\<^verbatim>\<open>int(feed.feed.get('opensearch_totalresults', 0))\<close>.\<close>

definition totalresults :: "feed \<Rightarrow> int" where
  "totalresults f = (case opensearch_totalresults f of None \<Rightarrow> 0 | Some n \<Rightarrow> n)"

section \<open>The commands of the interactive loop (main.py)\<close>

text \<open>
  Each command of \<^verbatim>\<open>run_interactive_mode\<close> is a function from the session state and the
  world to the exception that left the command (if any), the session state and the world.
  The state is mutated in place in the source, so what was assigned before an exception
  stays assigned.
\<close>

type_synonym 'w outcome = "py_error option \<times> app_state \<times> 'w world"

text \<open>The command \<^verbatim>\<open>q\<close>.\<close>

definition cmd_q :: "'w services \<Rightarrow> app_state \<Rightarrow> 'w world \<Rightarrow> 'w outcome" where
  "cmd_q sv s w =
     (case py_input ''Enter new search query: '' w of
        (Inl e, w1) \<Rightarrow> (Some e, s, w1)
      | (Inr line, w1) \<Rightarrow>
          (let new_query = strip line in
           if new_query \<noteq> [] then
             (let s1 = s\<lparr>current_query := new_query, current_start_index := 0,
                        downloaded_pdfs := Map.empty, gemini_uploaded_files := Map.empty\<rparr>;
                  (r, w2) = search_arxiv sv (current_query s1) (current_start_index s1)
                              (current_max_results s1) (current_sort_by s1)
                              (current_sort_order s1) w1;
                  s2 = s1\<lparr>last_results_feed := r\<rparr>
              in case r of
                   Some f \<Rightarrow>
                     (let s3 = s2\<lparr>total_results_count := totalresults f\<rparr>;
                          num_displayed = display_results f
                      in (None, s3,
                          if num_displayed < current_max_results s3
                             \<or> current_start_index s3 + num_displayed \<ge> total_results_count s3
                          then print_line ''[-] Reached end of results.'' w2
                          else w2))
                 | None \<Rightarrow> (None, s2\<lparr>total_results_count := 0\<rparr>, w2))
           else (None, s, print_line ''[!] Query cannot be empty.'' w1)))"

text \<open>
  \<^verbatim>\<open>len(state.last_results_feed.entries)\<close>: an \<^verbatim>\<open>AttributeError\<close> when the feed is
  \<^verbatim>\<open>None\<close>.
\<close>

definition len_entries :: "feed option \<Rightarrow> py_error + int" where
  "len_entries rf =
     (case rf of
        None \<Rightarrow> Inl (AttributeError (CHR 0x27 # ''NoneType'' @ CHR 0x27
                 # '' object has no attribute '' @ CHR 0x27 # ''entries'' @ [CHR 0x27]))
      | Some f \<Rightarrow> Inr (int (length (entries f))))"

text \<open>The command \<^verbatim>\<open>n\<close>.\<close>

definition cmd_n :: "'w services \<Rightarrow> app_state \<Rightarrow> 'w world \<Rightarrow> 'w outcome" where
  "cmd_n sv s w =
     (if current_query s = [] then (None, s, print_line ''[!] No active query.'' w)
      else case last_results_feed s of
        None \<Rightarrow> (None, s, print_line ''[-] No previous results.'' w)
      | Some f \<Rightarrow>
          if entries f = [] then (None, s, print_line ''[-] No previous results.'' w)
          else if current_start_index s + int (length (entries f)) \<ge> total_results_count s
          then (None, s, print_line ''[-] Already at the end.'' w)
          else
            (let s1 = s\<lparr>current_start_index :=
                          current_start_index s + int (length (entries f))\<rparr>;
                 (r, w1) = search_arxiv sv (current_query s1) (current_start_index s1)
                             (current_max_results s1) (current_sort_by s1)
                             (current_sort_order s1) w;
                 s2 = s1\<lparr>last_results_feed := r\<rparr>
             in case r of
                  Some f' \<Rightarrow>
                    (let s3 = s2\<lparr>total_results_count := totalresults f'\<rparr>;
                         num_displayed = display_results f'
                     in (None, s3,
                         if num_displayed < current_max_results s3
                            \<or> current_start_index s3 + num_displayed \<ge> total_results_count s3
                         then print_line ''[-] Reached end of results.'' w1
                         else w1))
                | None \<Rightarrow>
                    (case len_entries (last_results_feed s2) of
                       Inl e \<Rightarrow> (Some e, s2, w1)
                     | Inr n \<Rightarrow>
                         (let s3 = s2\<lparr>current_start_index := current_start_index s2 - n\<rparr>
                          in (None, s3\<lparr>current_start_index := max 0 (current_start_index s3)\<rparr>,
                              w1)))))"



text \<open>
  The \<^verbatim>\<open>try\<close> around each command in the loop: \<^verbatim>\<open>KeyboardInterrupt\<close> and
  \<^verbatim>\<open>EOFError\<close> end the loop, any other exception is printed and the loop goes on.
  The result says whether the loop goes on.
\<close>

fun loop_except :: "'w outcome \<Rightarrow> bool \<times> app_state \<times> 'w world" where
  "loop_except (None, s, w) = (True, s, w)"
| "loop_except (Some KeyboardInterrupt, s, w) =
     (False, s, print_line (CHR 0x0A # ''[!] Interrupt received.'') w)"
| "loop_except (Some EOFError, s, w) = (False, s, print_line (CHR 0x0A # ''[!] EOF received.'') w)"
| "loop_except (Some e, s, w) =
     (True, s, print_line (CHR 0x0A # ''[!] Unexpected error: '' @ str_error e) w)"

section \<open>Downloading a PDF (arxiv_client.py)\<close>

text \<open>
  The loop of \<^verbatim>\<open>download_pdf\<close> over the links of an entry: a link titled \<^verbatim>\<open>pdf\<close>
  ends the search, a link of type \<^verbatim>\<open>application/pdf\<close> is kept as a fallback.
\<close>

fun find_pdf_link :: "link list \<Rightarrow> string option \<Rightarrow> string option" where
  "find_pdf_link [] pdf_link = pdf_link"
| "find_pdf_link (l # ls) pdf_link =
     (if l_title l = Some ''pdf'' then l_href l
      else if l_type l = Some ''application/pdf'' then find_pdf_link ls (l_href l)
      else find_pdf_link ls pdf_link)"

text \<open>\<^verbatim>\<open>os.path.join(a, b)\<close> and \<^verbatim>\<open>os.path.basename(p)\<close> with \<^verbatim>\<open>/\<close> as separator.\<close>

definition os_path_join :: "string \<Rightarrow> string \<Rightarrow> string" where
  "os_path_join a b =
     (if prefix ''/'' b then b
      else if a = [] \<or> suffix ''/'' a then a @ b
      else a @ ''/'' @ b)"


text \<open>
  \<^verbatim>\<open>download_pdf(entry, directory)\<close>. The returned path is \<open>None\<close> when the download
  fails. Creating the directory is taken to succeed.
\<close>

definition download_pdf ::
  "'w services \<Rightarrow> entry \<Rightarrow> string \<Rightarrow> 'w world \<Rightarrow> string option \<times> 'w world" where
  "download_pdf sv entry directory w =
     (let arxiv_id_full = split_last ''/abs/'' (case e_id entry of None \<Rightarrow> [] | Some i \<Rightarrow> i);
          arxiv_id_base = hd (split_char CHR ''v'' arxiv_id_full)
      in if arxiv_id_base = [] then (None, w)
         else
           (case find_pdf_link (case e_links entry of None \<Rightarrow> [] | Some ls \<Rightarrow> ls) None of
              None \<Rightarrow> (None, w)
            | Some href \<Rightarrow>
                if href = [] then (None, w)
                else
                  (let pdf_link = (if prefix ''//'' href then ''https:'' @ href else href);
                       safe_id = map (\<lambda>c. if isalnum c \<or> c \<in> set ''.-'' then c else CHR ''_'')
                                     arxiv_id_full;
                       filename = safe_id @ ''.pdf'';
                       filepath = os_path_join directory filename
                   in if filepath \<in> files w then (Some filepath, w)
                      else
                        (let (ok, rm) = pdf_get sv (remote w) pdf_link;
                             w1 = w\<lparr>trace := trace w @ [Http_get pdf_link], remote := rm\<rparr>
                         in if ok then (Some filepath, w1\<lparr>files := insert filepath (files w1)\<rparr>)
                            else (None, w1\<lparr>files := files w1 - {filepath}\<rparr>)))))"

section \<open>The download command (main.py)\<close>







section \<open>Uploading a PDF (gemini_client.py and main.py)\<close>








section \<open>Comparing papers\<close>




subsection \<open>The interactive command\<close>




subsection \<open>The one-shot action \<^verbatim>\<open>--compare\<close> of \<^verbatim>\<open>main\<close>\<close>





section \<open>Citations (citation_utils.py)\<close>










section \<open>Events of a run\<close>




definition new_events :: "'w world \<Rightarrow> 'w world \<Rightarrow> event list" where
  "new_events w w' = drop (length (trace w)) (trace w')"




section \<open>A sample session\<close>

text \<open>
  Two entries of a page of ten results, a session on that page, and remote services that
  answer every call (an upload is ready at the second poll) or fail every call.
\<close>

definition ex_entry1 :: entry where
  "ex_entry1 =
     \<lparr>e_id = Some ''http://arxiv.org/abs/1707.08567v1'',
      e_title = Some ''Attention'',
      e_link = Some ''http://arxiv.org/abs/1707.08567v1'',
      e_authors = Some [\<lparr>a_name = Some ''Ada Lovelace''\<rparr>],
      e_published = Some ''2017-07-26T17:58:01Z'',
      e_updated = Some ''2017-07-26T17:58:01Z'',
      e_arxiv_doi = None,
      e_arxiv_journal_ref = None,
      e_arxiv_primary_category = Some \<lparr>t_term = Some ''cs.CL''\<rparr>,
      e_tags = Some [\<lparr>t_term = Some ''cs.CL''\<rparr>],
      e_summary = Some ''We study attention.'',
      e_links = Some [\<lparr>l_title = None, l_type = Some ''text/html'',
                       l_href = Some ''http://arxiv.org/abs/1707.08567v1''\<rparr>,
                      \<lparr>l_title = Some ''pdf'', l_type = Some ''application/pdf'',
                       l_href = Some ''http://arxiv.org/pdf/1707.08567v1''\<rparr>]\<rparr>"

definition ex_entry2 :: entry where
  "ex_entry2 =
     \<lparr>e_id = Some ''http://arxiv.org/abs/2001.00001v2'',
      e_title = Some ''Graphs'',
      e_link = Some ''http://arxiv.org/abs/2001.00001v2'',
      e_authors = Some [\<lparr>a_name = Some ''Alan Turing''\<rparr>, \<lparr>a_name = Some ''Grace Hopper''\<rparr>],
      e_published = Some ''2020-01-01T00:00:00Z'',
      e_updated = Some ''2020-02-01T00:00:00Z'',
      e_arxiv_doi = Some ''10.1000/xyz'',
      e_arxiv_journal_ref = None,
      e_arxiv_primary_category = Some \<lparr>t_term = Some ''cs.LG''\<rparr>,
      e_tags = Some [\<lparr>t_term = Some ''cs.LG''\<rparr>],
      e_summary = Some ''We study graphs.'',
      e_links = Some [\<lparr>l_title = Some ''pdf'', l_type = Some ''application/pdf'',
                       l_href = Some ''http://arxiv.org/pdf/2001.00001v2''\<rparr>]\<rparr>"

definition ex_feed :: feed where
  "ex_feed = \<lparr>opensearch_startindex = Some 0, opensearch_totalresults = Some 10,
              entries = [ex_entry1, ex_entry2]\<rparr>"

definition ex_state :: app_state where
  "ex_state =
     \<lparr>current_query = ''cats'', current_start_index = 0, current_max_results = 2,
      current_sort_by = ''submittedDate'', current_sort_order = ''descending'',
      last_results_feed = Some ex_feed, total_results_count = 10,
      gemini_enabled = True, serper_enabled = False,
      downloaded_pdfs = Map.empty, gemini_uploaded_files = Map.empty,
      gemini_model_name = ''gemini-2.5-pro-exp-03-25''\<rparr>"

definition ex_world :: "nat world" where
  "ex_world = \<lparr>stdin = [], stdout = [], files = {}, trace = [], remote = 0\<rparr>"

definition ex_old_file :: gemini_file where
  "ex_old_file = \<lparr>gf_name = ''files/old'', gf_state = ''ACTIVE'',
                  gf_uri = ''https://g/files/old'', gf_mime_type = ''application/pdf''\<rparr>"

definition ex_one_file :: gemini_file where
  "ex_one_file = \<lparr>gf_name = ''files/one'', gf_state = ''ACTIVE'',
                  gf_uri = ''https://g/files/one'', gf_mime_type = ''application/pdf''\<rparr>"

definition ex_new_file :: "string \<Rightarrow> gemini_file" where
  "ex_new_file st = \<lparr>gf_name = ''files/new'', gf_state = st,
                     gf_uri = ''https://g/files/new'', gf_mime_type = ''application/pdf''\<rparr>"

definition ex_online :: "nat services" where
  "ex_online =
     \<lparr>arxiv_api = (\<lambda>rm q start mx sb so. (Some ex_feed, rm)),
      pdf_get = (\<lambda>rm url. (True, rm)),
      genai_upload_file = (\<lambda>rm path name. (Some (ex_new_file ''PROCESSING''), 0)),
      genai_get_file =
        (\<lambda>rm name. if name = ''files/old'' then (Some (ex_old_file\<lparr>gf_state := ''FAILED''\<rparr>), rm)
                    else if name = ''files/one'' then (Some ex_one_file, rm)
                    else (Some (ex_new_file (if rm < 1 then ''PROCESSING'' else ''ACTIVE'')),
                          rm + 1)),
      genai_delete_file = (\<lambda>rm name. rm),
      generate_content = (\<lambda>rm model prompt fs. (Some ''Both papers study attention.'', rm))\<rparr>"

definition ex_pdf1 :: string where
  "ex_pdf1 = ''arxiv_downloads/1707.08567v1.pdf''"


definition ex_session :: app_state where
  "ex_session = ex_state\<lparr>downloaded_pdfs := [1 \<mapsto> ex_pdf1],
                         gemini_uploaded_files := [ex_pdf1 \<mapsto> ex_one_file]\<rparr>"


definition ex_offline :: "nat services" where
  "ex_offline =
     \<lparr>arxiv_api = (\<lambda>rm q start mx sb so. (None, rm)),
      pdf_get = (\<lambda>rm url. (False, rm)),
      genai_upload_file = (\<lambda>rm path name. (None, rm)),
      genai_get_file = (\<lambda>rm name. (None, rm)),
      genai_delete_file = (\<lambda>rm name. rm),
      generate_content = (\<lambda>rm model prompt fs. (None, rm))\<rparr>"











section \<open>Traces, downloads and uploads\<close>













lemma new_events_step: "trace w1 = trace w @ evs \<Longrightarrow> new_events w w1 = evs"
  by (simp add: new_events_def)








lemma download_pdf_stdout: "stdout (snd (download_pdf sv e d w)) = stdout w"
  by (auto simp: download_pdf_def Let_def split: option.splits prod.splits)

























section \<open>The properties of the session controller\<close>

text \<open>
  \<^bold>\<open>C1.\<close> Resolving a display number. When no feed is loaded the result is \<open>None\<close>.
  With a feed, let \<open>index = display_number - 1 - page_start\<close>, where the page start is the
  start index the feed reports (0 when it reports none): the result is the entry at
  position \<open>index\<close> of the page when \<open>0 \<le> index < len(entries)\<close>, and \<open>None\<close> otherwise.
  The function gets the feed and the number and returns the entry: it neither reads nor
  returns the session state, so no call of it can change the state.
\<close>

theorem resolve_display_number:
  "(rf = None \<longrightarrow> get_entry_from_results rf n = None) \<and>
   (\<forall>f. rf = Some f \<longrightarrow>
      (let index = n - 1 - (case opensearch_startindex f of None \<Rightarrow> 0 | Some k \<Rightarrow> k) in
       (0 \<le> index \<and> index < int (length (entries f))
          \<longrightarrow> get_entry_from_results rf n = Some (entries f ! nat index)) \<and>
       (\<not> (0 \<le> index \<and> index < int (length (entries f)))
          \<longrightarrow> get_entry_from_results rf n = None)))"
  by (auto simp: get_entry_from_results_def Let_def split: option.splits)

text \<open>
  On the sample page of two entries that starts at offset 0: number 2 is the second
  entry, numbers 3 and 0 are out of range, and without a page nothing is found.
\<close>

theorem resolve_display_number_witness:
  "get_entry_from_results (Some ex_feed) 2 = Some ex_entry2
   \<and> get_entry_from_results (Some ex_feed) 3 = None
   \<and> get_entry_from_results (Some ex_feed) 0 = None
   \<and> get_entry_from_results None 1 = None"
  using resolve_display_number [of "Some ex_feed" 2] resolve_display_number [of "Some ex_feed" 3]
    resolve_display_number [of "Some ex_feed" 0] resolve_display_number [of None 1]
  by (simp add: ex_feed_def)

text \<open>
  \<^bold>\<open>C2.\<close> The command \<^verbatim>\<open>q\<close> with a query that is not blank: whatever the state before,
  whatever the index answers (a page or a failure) and whether or not the query is the one
  already active, the state afterwards has an empty map of downloads, an empty map of
  uploads, offset 0 and the new query. The query is the line the user types, stripped.
\<close>

theorem query_clears_maps:
  assumes "stdin w = line # rest" and "strip line \<noteq> []"
  shows "downloaded_pdfs (fst (snd (cmd_q sv s w))) = Map.empty
       \<and> gemini_uploaded_files (fst (snd (cmd_q sv s w))) = Map.empty
       \<and> current_start_index (fst (snd (cmd_q sv s w))) = 0
       \<and> current_query (fst (snd (cmd_q sv s w))) = strip line"
  using assms
  by (auto simp: cmd_q_def py_input_def Let_def split: prod.splits option.splits sum.splits)

text \<open>
  On the sample session, which has one download and one upload: the query \<^verbatim>\<open>cats\<close>,
  the same as the current one, sent while every search fails, empties both maps.
\<close>

theorem query_clears_maps_witness:
  "current_query ex_session = ''cats''
   \<and> downloaded_pdfs ex_session 1 = Some ex_pdf1
   \<and> gemini_uploaded_files ex_session ex_pdf1 = Some ex_one_file
   \<and> downloaded_pdfs (fst (snd (cmd_q ex_offline ex_session (ex_world\<lparr>stdin := [''cats'']\<rparr>))))
       = Map.empty
   \<and> gemini_uploaded_files
        (fst (snd (cmd_q ex_offline ex_session (ex_world\<lparr>stdin := [''cats'']\<rparr>)))) = Map.empty
   \<and> current_start_index
        (fst (snd (cmd_q ex_offline ex_session (ex_world\<lparr>stdin := [''cats'']\<rparr>)))) = 0
   \<and> current_query
        (fst (snd (cmd_q ex_offline ex_session (ex_world\<lparr>stdin := [''cats'']\<rparr>)))) = ''cats''"
proof -
  have h1: "stdin (ex_world\<lparr>stdin := [''cats'']\<rparr>) = ''cats'' # []" by simp
  have h2: "strip ''cats'' \<noteq> []" by code_simp
  have h3: "strip ''cats'' = ''cats''" by code_simp
  from query_clears_maps [OF h1 h2, of ex_offline ex_session] h3 show ?thesis
    by (simp add: ex_session_def ex_state_def)
qed

text \<open>
  \<^bold>\<open>C3.\<close> The command \<^verbatim>\<open>n\<close> at the end of the results. With an active query and a last
  page that is not empty, if \<open>offset + len(page) \<ge> total\<close> the command prints
  \<^verbatim>\<open>[-] Already at the end.\<close> and nothing else happens: the state is the same (offset,
  page and both maps), and the world differs by that one line only, so no request was
  sent to the index.
\<close>

theorem next_page_at_end:
  assumes "current_query s \<noteq> []" and "last_results_feed s = Some f" and "entries f \<noteq> []"
    and "current_start_index s + int (length (entries f)) \<ge> total_results_count s"
  shows "cmd_n sv s w = (None, s, print_line ''[-] Already at the end.'' w)"
  using assms by (simp add: cmd_n_def)

text \<open>
  On the sample session at offset 8 of 10 results, with a page of two entries.
\<close>

theorem next_page_at_end_witness:
  "cmd_n ex_online (ex_state\<lparr>current_start_index := 8\<rparr>) ex_world
     = (None, ex_state\<lparr>current_start_index := 8\<rparr>,
        ex_world\<lparr>stdout := [''[-] Already at the end.'']\<rparr>)"
proof -
  have "cmd_n ex_online (ex_state\<lparr>current_start_index := 8\<rparr>) ex_world
          = (None, ex_state\<lparr>current_start_index := 8\<rparr>,
             print_line ''[-] Already at the end.'' ex_world)"
    by (rule next_page_at_end [where f = ex_feed]) (simp_all add: ex_state_def ex_feed_def)
  then show ?thesis by (simp add: print_line_def ex_world_def)
qed

text \<open>
  \<^bold>\<open>C4.\<close> The command \<^verbatim>\<open>n\<close> when the fetch of the next page fails. The source advances
  the offset, stores the answer \<^verbatim>\<open>None\<close> as the last feed, and then, to roll the offset
  back, reads \<^verbatim>\<open>len(state.last_results_feed.entries)\<close> of that \<^verbatim>\<open>None\<close>. So the
  rollback raises \<^verbatim>\<open>AttributeError\<close> before it subtracts anything: the offset stays
  advanced by the length of the old page, the old page is lost, and the exception is
  caught by the loop, which prints it and goes on.
\<close>

theorem next_page_failed_fetch:
  assumes "current_query s \<noteq> []" and "last_results_feed s = Some f" and "entries f \<noteq> []"
    and "current_start_index s + int (length (entries f)) < total_results_count s"
    and "arxiv_api sv (remote w) (current_query s)
           (current_start_index s + int (length (entries f))) (current_max_results s)
           (current_sort_by s) (current_sort_order s) = (None, rm)"
  shows "(\<exists>m. fst (cmd_n sv s w) = Some (AttributeError m))
       \<and> fst (snd (cmd_n sv s w))
           = s\<lparr>current_start_index := current_start_index s + int (length (entries f)),
               last_results_feed := None\<rparr>
       \<and> current_start_index (fst (snd (cmd_n sv s w))) \<noteq> current_start_index s
       \<and> trace (snd (snd (cmd_n sv s w)))
           = trace w @ [Search_arxiv (current_query s)
                          (current_start_index s + int (length (entries f)))
                          (current_max_results s) (current_sort_by s) (current_sort_order s)]
       \<and> fst (loop_except (cmd_n sv s w)) = True"
  using assms by (simp add: cmd_n_def search_arxiv_def len_entries_def)

text \<open>
  On the sample session (offset 0, a page of two entries, 10 results) with a search that
  fails: the command ends with the \<^verbatim>\<open>AttributeError\<close>, the offset is 2 and the page is
  gone.
\<close>

theorem next_page_failed_fetch_witness:
  "current_start_index ex_state = 0
   \<and> fst (cmd_n ex_offline ex_state ex_world)
       = Some (AttributeError (CHR 0x27 # ''NoneType'' @ CHR 0x27
                 # '' object has no attribute '' @ CHR 0x27 # ''entries'' @ [CHR 0x27]))
   \<and> current_start_index (fst (snd (cmd_n ex_offline ex_state ex_world))) = 2
   \<and> last_results_feed (fst (snd (cmd_n ex_offline ex_state ex_world))) = None
   \<and> trace (snd (snd (cmd_n ex_offline ex_state ex_world)))
       = [Search_arxiv ''cats'' 2 2 ''submittedDate'' ''descending'']
   \<and> fst (loop_except (cmd_n ex_offline ex_state ex_world)) = True"
proof -
  have h: "arxiv_api ex_offline (remote ex_world) (current_query ex_state)
             (current_start_index ex_state + int (length (entries ex_feed)))
             (current_max_results ex_state) (current_sort_by ex_state)
             (current_sort_order ex_state) = (None, 0)"
    by (simp add: ex_offline_def ex_world_def)
  have "(\<exists>m. fst (cmd_n ex_offline ex_state ex_world) = Some (AttributeError m))
       \<and> fst (snd (cmd_n ex_offline ex_state ex_world))
           = ex_state\<lparr>current_start_index :=
                        current_start_index ex_state + int (length (entries ex_feed)),
                      last_results_feed := None\<rparr>
       \<and> current_start_index (fst (snd (cmd_n ex_offline ex_state ex_world)))
           \<noteq> current_start_index ex_state
       \<and> trace (snd (snd (cmd_n ex_offline ex_state ex_world)))
           = trace ex_world @ [Search_arxiv (current_query ex_state)
                          (current_start_index ex_state + int (length (entries ex_feed)))
                          (current_max_results ex_state) (current_sort_by ex_state)
                          (current_sort_order ex_state)]
       \<and> fst (loop_except (cmd_n ex_offline ex_state ex_world)) = True"
    by (rule next_page_failed_fetch [OF _ _ _ _ h]) (simp_all add: ex_state_def ex_feed_def)
  moreover have "fst (cmd_n ex_offline ex_state ex_world)
       = Some (AttributeError (CHR 0x27 # ''NoneType'' @ CHR 0x27
                 # '' object has no attribute '' @ CHR 0x27 # ''entries'' @ [CHR 0x27]))"
    by (simp add: cmd_n_def search_arxiv_def len_entries_def ex_state_def ex_feed_def
        ex_offline_def ex_world_def)
  ultimately show ?thesis by (simp add: ex_state_def ex_feed_def ex_world_def)
qed
















end
